theory Spec2Isabelle
  imports Complex_Main
begin

section \<open>Data model\<close>

text \<open>
  The five tables of \<^verbatim>\<open>db/schema.ts\<close> and the enums of \<^verbatim>\<open>schema.ts\<close>.
  A row is a record, a nullable column an \<open>option\<close>, a table the list of its rows in
  insertion order, and a \<^verbatim>\<open>serial\<close> primary key a counter kept beside the table.
  Field names carry the table's prefix, since the source reuses \<^verbatim>\<open>id\<close>,
  \<^verbatim>\<open>status\<close>, \<^verbatim>\<open>affiliate_id\<close> and the timestamps in several tables.

  Currency amounts are exact rationals: the \<^verbatim>\<open>toString\<close>/\<^verbatim>\<open>parseFloat\<close> round trip
  through the \<^verbatim>\<open>numeric\<close> columns is the identity here, so binary floating point and the
  rounding of the column scale are outside the model. Timestamps are milliseconds since
  the epoch, and every \<^verbatim>\<open>new Date()\<close> of a handler is the argument \<open>now\<close>.
\<close>

datatype program_type = Online | OfflinePare | Rombongan | Cabang
datatype commission_type = Percentage | Flat
datatype user_role = Affiliate | Admin
datatype payout_status = PayoutPending | Paid
datatype registration_status = Pending | PaymentVerified

type_synonym timestamp = nat

record user =
  user_id :: int
  user_email :: string
  user_password_hash :: string
  user_full_name :: string
  user_role :: user_role
  user_affiliate_code :: "string option"
  user_created_at :: timestamp
  user_updated_at :: timestamp

record program =
  program_id :: int
  program_name :: string
  program_type :: program_type
  program_fee :: rat
  program_commission_rate :: rat
  program_commission_type :: commission_type
  program_description :: "string option"
  program_is_active :: bool
  program_created_at :: timestamp
  program_updated_at :: timestamp

record registration =
  reg_id :: int
  reg_affiliate_id :: int
  reg_program_id :: int
  reg_student_name :: string
  reg_student_email :: string
  reg_student_phone :: string
  reg_status :: registration_status
  reg_commission_amount :: rat
  reg_registration_date :: timestamp
  reg_payment_verified_at :: "timestamp option"
  reg_created_at :: timestamp
  reg_updated_at :: timestamp

record link_click =
  click_id :: int
  click_affiliate_id :: int
  click_ip_address :: string
  click_user_agent :: "string option"
  click_clicked_at :: timestamp

record payout_request =
  payout_id :: int
  payout_affiliate_id :: int
  payout_amount :: rat
  payout_bank_name :: string
  payout_account_number :: string
  payout_account_holder_name :: string
  payout_status :: payout_status
  payout_requested_at :: timestamp
  payout_processed_at :: "timestamp option"
  payout_created_at :: timestamp
  payout_updated_at :: timestamp

record db =
  usersTable :: "user list"
  programsTable :: "program list"
  registrationsTable :: "registration list"
  linkClicksTable :: "link_click list"
  payoutRequestsTable :: "payout_request list"
  next_user_id :: int
  next_registration_id :: int
  next_click_id :: int
  next_payout_id :: int

text \<open>A thrown \<^verbatim>\<open>Error\<close> is the value \<open>Inl (Error message)\<close>.\<close>

datatype error = Error string

text \<open>
  The aggregate \<^verbatim>\<open>sum(column)\<close> of the query builder: SQL's \<^verbatim>\<open>SUM\<close> over no row is
  \<^verbatim>\<open>NULL\<close>, otherwise the total (as decimal text, which is never the empty string).
\<close>

definition sql_sum :: "rat list \<Rightarrow> rat option" where
  "sql_sum xs = (if xs = [] then None else Some (sum_list xs))"

section \<open>Commission rule (handlers/commission.ts)\<close>

definition calculateCommission :: "program \<Rightarrow> rat" where
  "calculateCommission program =
     (let commission =
        (if program_commission_type program = Percentage
           then (program_fee program * program_commission_rate program) / 100
         else if program_commission_type program = Flat
           then program_commission_rate program
         else 0)
      in max 0 commission)"

section \<open>Registrations (handlers/registrations.ts, src/unnamed/part_001)\<close>

record create_registration_input =
  cri_affiliate_code :: string
  cri_program_id :: int
  cri_student_name :: string
  cri_student_email :: string
  cri_student_phone :: string

text \<open>
  \<^verbatim>\<open>createRegistration\<close>: two lookups, each throwing when it finds no row, then the
  commission computed inline and one insert. A handler that writes returns its result
  together with the store after the call; a throw before the insert leaves the store as
  it was. \<^verbatim>\<open>eq(affiliate_code, code)\<close> is SQL equality, which no \<^verbatim>\<open>NULL\<close> code
  satisfies.
\<close>

definition createRegistration ::
  "timestamp \<Rightarrow> create_registration_input \<Rightarrow> db \<Rightarrow> (error + registration) \<times> db" where
  "createRegistration now input d =
     (let affiliates = filter (\<lambda>u. user_affiliate_code u = Some (cri_affiliate_code input)
                                    \<and> user_role u = Affiliate) (usersTable d)
      in case affiliates of
           [] \<Rightarrow> (Inl (Error ''Affiliate not found''), d)
         | affiliate # _ \<Rightarrow>
      (let programs = filter (\<lambda>p. program_id p = cri_program_id input
                                    \<and> program_is_active p = True) (programsTable d)
       in case programs of
            [] \<Rightarrow> (Inl (Error ''Program not found or inactive''), d)
          | program # _ \<Rightarrow>
       (let programFee = program_fee program;
            commissionRate = program_commission_rate program;
            commissionAmount =
              (if program_commission_type program = Percentage
                 then (programFee * commissionRate) / 100
               else commissionRate);
            registration =
              \<lparr>reg_id = next_registration_id d,
               reg_affiliate_id = user_id affiliate,
               reg_program_id = cri_program_id input,
               reg_student_name = cri_student_name input,
               reg_student_email = cri_student_email input,
               reg_student_phone = cri_student_phone input,
               reg_status = Pending,
               reg_commission_amount = commissionAmount,
               reg_registration_date = now,
               reg_payment_verified_at = None,
               reg_created_at = now,
               reg_updated_at = now\<rparr>
        in (Inr registration,
            d\<lparr>registrationsTable := registrationsTable d @ [registration],
              next_registration_id := next_registration_id d + 1\<rparr>))))"

text \<open>
  \<^verbatim>\<open>verifyPayment\<close>: the update runs first, on every row with the id, and the handler
  throws afterwards when \<^verbatim>\<open>returning()\<close> gave no row. There is no check of the row's
  current status.
\<close>

definition verifyPayment ::
  "timestamp \<Rightarrow> int \<Rightarrow> db \<Rightarrow> (error + registration) \<times> db" where
  "verifyPayment now registration_id d =
     (let d' = d\<lparr>registrationsTable :=
                  map (\<lambda>r. if reg_id r = registration_id
                            then r\<lparr>reg_status := PaymentVerified,
                                   reg_payment_verified_at := Some now,
                                   reg_updated_at := now\<rparr>
                            else r) (registrationsTable d)\<rparr>;
          result = filter (\<lambda>r. reg_id r = registration_id) (registrationsTable d')
      in case result of
           [] \<Rightarrow> (Inl (Error ''Registration not found''), d')
         | registration # _ \<Rightarrow> (Inr registration, d'))"

definition getAllRegistrations :: "db \<Rightarrow> error + registration list" where
  "getAllRegistrations d = Inr (registrationsTable d)"


section \<open>Payouts (handlers/payouts.ts)\<close>

record create_payout_request_input =
  cpi_amount :: rat
  cpi_bank_name :: string
  cpi_account_number :: string
  cpi_account_holder_name :: string

definition createPayoutRequest ::
  "timestamp \<Rightarrow> int \<Rightarrow> create_payout_request_input \<Rightarrow> db \<Rightarrow> (error + payout_request) \<times> db" where
  "createPayoutRequest now affiliateId input d =
     (let affiliate = filter (\<lambda>u. user_id u = affiliateId \<and> user_role u = Affiliate)
                        (usersTable d)
      in if length affiliate = 0 then (Inl (Error ''Affiliate not found''), d)
      else
      (let commissionResult =
             sql_sum (map reg_commission_amount
               (filter (\<lambda>r. reg_affiliate_id r = affiliateId \<and> reg_status r = PaymentVerified)
                  (registrationsTable d)));
           totalVerifiedCommission = (case commissionResult of None \<Rightarrow> 0 | Some t \<Rightarrow> t);
           payoutResult =
             sql_sum (map payout_amount
               (filter (\<lambda>p. payout_affiliate_id p = affiliateId) (payoutRequestsTable d)));
           totalPayoutRequests = (case payoutResult of None \<Rightarrow> 0 | Some t \<Rightarrow> t);
           availableCommission = totalVerifiedCommission - totalPayoutRequests
       in if availableCommission < cpi_amount input
          then (Inl (Error ''Insufficient verified commission balance''), d)
          else
          (let payoutRequest =
                 \<lparr>payout_id = next_payout_id d,
                  payout_affiliate_id = affiliateId,
                  payout_amount = cpi_amount input,
                  payout_bank_name = cpi_bank_name input,
                  payout_account_number = cpi_account_number input,
                  payout_account_holder_name = cpi_account_holder_name input,
                  payout_status = PayoutPending,
                  payout_requested_at = now,
                  payout_processed_at = None,
                  payout_created_at = now,
                  payout_updated_at = now\<rparr>
           in (Inr payoutRequest,
               d\<lparr>payoutRequestsTable := payoutRequestsTable d @ [payoutRequest],
                 next_payout_id := next_payout_id d + 1\<rparr>))))"

record update_payout_status_input =
  upi_id :: int
  upi_status :: payout_status

text \<open>
  \<^verbatim>\<open>updatePayoutStatus\<close>: \<^verbatim>\<open>updateData\<close> always carries the new status and
  \<^verbatim>\<open>updated_at\<close>, and carries \<^verbatim>\<open>processed_at\<close> only when the new status is
  \<^verbatim>\<open>paid\<close>; a column absent from \<^verbatim>\<open>updateData\<close> keeps its value. After a
  successful existence check \<^verbatim>\<open>returning()\<close> has a row; reading \<^verbatim>\<open>result[0]\<close> of
  an empty result would be a \<^verbatim>\<open>TypeError\<close>.
\<close>

definition updatePayoutStatus ::
  "timestamp \<Rightarrow> update_payout_status_input \<Rightarrow> db \<Rightarrow> (error + payout_request) \<times> db" where
  "updatePayoutStatus now input d =
     (let existingPayout = filter (\<lambda>p. payout_id p = upi_id input) (payoutRequestsTable d)
      in if length existingPayout = 0 then (Inl (Error ''Payout request not found''), d)
      else
      (let updateData = (\<lambda>p. let p' = p\<lparr>payout_status := upi_status input,
                                           payout_updated_at := now\<rparr>
                               in if upi_status input = Paid
                                  then p'\<lparr>payout_processed_at := Some now\<rparr>
                                  else p');
           d' = d\<lparr>payoutRequestsTable :=
                   map (\<lambda>p. if payout_id p = upi_id input then updateData p else p)
                     (payoutRequestsTable d)\<rparr>;
           result = filter (\<lambda>p. payout_id p = upi_id input) (payoutRequestsTable d')
       in case result of
            [] \<Rightarrow> (Inl (Error ''TypeError''), d')
          | payoutRequest # _ \<Rightarrow> (Inr payoutRequest, d')))"


definition getAllPayoutRequests :: "db \<Rightarrow> error + payout_request list" where
  "getAllPayoutRequests d = Inr (payoutRequestsTable d)"

section \<open>Link tracking and statistics (handlers/tracking.ts, src/unnamed/part_000)\<close>

record track_link_click_input =
  tli_affiliate_code :: string
  tli_ip_address :: string
  tli_user_agent :: "string option"

definition trackLinkClick ::
  "timestamp \<Rightarrow> track_link_click_input \<Rightarrow> db \<Rightarrow> (error + link_click) \<times> db" where
  "trackLinkClick now input d =
     (let affiliates = filter (\<lambda>u. user_affiliate_code u = Some (tli_affiliate_code input)
                                    \<and> user_role u = Affiliate) (usersTable d)
      in case affiliates of
           [] \<Rightarrow> (Inl (Error (''Affiliate not found with code: '' @ tli_affiliate_code input)), d)
         | affiliate # _ \<Rightarrow>
      (let click = \<lparr>click_id = next_click_id d,
                    click_affiliate_id = user_id affiliate,
                    click_ip_address = tli_ip_address input,
                    click_user_agent = tli_user_agent input,
                    click_clicked_at = now\<rparr>
       in (Inr click,
           d\<lparr>linkClicksTable := linkClicksTable d @ [click],
             next_click_id := next_click_id d + 1\<rparr>)))"




section \<open>Strings and numbers as text\<close>

text \<open>
  The string operations the code generators use. \<^verbatim>\<open>Number.prototype.toString(radix)\<close> of
  a non-negative integer is its digits in that radix, lower case; the handlers call it
  with radix 10 and 36 only (a radix outside 2..36 is a \<^verbatim>\<open>RangeError\<close> in the source
  and gives the empty string here). \<^verbatim>\<open>substring\<close>, \<^verbatim>\<open>substr\<close> and \<^verbatim>\<open>slice\<close>
  clamp to the string's length, as \<open>take\<close> and \<open>drop\<close> do. \<^verbatim>\<open>toUpperCase\<close> is
  modelled on ASCII, which is all these strings hold.
\<close>

definition base36_digits :: string where
  "base36_digits = ''0123456789abcdefghijklmnopqrstuvwxyz''"

definition digit_char :: "nat \<Rightarrow> char" where
  "digit_char k = base36_digits ! k"

function toStringRadix :: "nat \<Rightarrow> nat \<Rightarrow> string" where
  "toStringRadix radix n =
     (if radix < 2 \<or> 36 < radix then []
      else if n < radix then [digit_char n]
      else toStringRadix radix (n div radix) @ [digit_char (n mod radix)])"
  by pat_completeness auto
termination
  by (relation "measure (\<lambda>(radix, n). n)") auto

definition toUpperCase_char :: "char \<Rightarrow> char" where
  "toUpperCase_char c =
     (case map_of (zip ''abcdefghijklmnopqrstuvwxyz'' ''ABCDEFGHIJKLMNOPQRSTUVWXYZ'') c of
        Some u \<Rightarrow> u
      | None \<Rightarrow> c)"

definition toUpperCase :: "string \<Rightarrow> string" where
  "toUpperCase s = map toUpperCase_char s"


definition substr :: "nat \<Rightarrow> nat \<Rightarrow> string \<Rightarrow> string" where
  "substr start len s = take len (drop start s)"





section \<open>Affiliate codes (handlers/affiliate.ts)\<close>




section \<open>Users (handlers/auth.ts, the second file of src/server/src/handlers/programs.ts)\<close>

text \<open>
  \<^verbatim>\<open>hashPassword\<close> is SHA-256 in hexadecimal, computed by the platform's
  \<^verbatim>\<open>crypto.subtle\<close>; it is the parameter \<open>hashPassword\<close> of the two handlers.
\<close>

definition generateAffiliateCode :: "timestamp \<Rightarrow> string \<Rightarrow> string" where
  "generateAffiliateCode now r =
     (let timestamp = toStringRadix 36 now;
          random = substr 2 5 r
      in toUpperCase (''AFF'' @ timestamp @ random))"

record create_user_input =
  cui_email :: string
  cui_password :: string
  cui_full_name :: string
  cui_role :: user_role

text \<open>
  The \<^verbatim>\<open>while (!isUnique)\<close> loop of \<^verbatim>\<open>registerUser\<close> has no bound on its
  iterations, so it is a partial function: \<open>None\<close> is the loop that never ends. The
  i-th iteration reads the clock (\<open>clock i\<close>) and draws a random number (\<open>random i\<close>).
\<close>

partial_function (option) registerUser_loop ::
  "(nat \<Rightarrow> timestamp) \<Rightarrow> (nat \<Rightarrow> string) \<Rightarrow> db \<Rightarrow> nat \<Rightarrow> string option" where
  "registerUser_loop clock random d i =
     (let affiliateCode = generateAffiliateCode (clock i) (random i);
          existingCode = take 1 (filter (\<lambda>u. user_affiliate_code u = Some affiliateCode)
                                   (usersTable d));
          isUnique = (length existingCode = 0)
      in if \<not> isUnique then registerUser_loop clock random d (i + 1)
         else Some affiliateCode)"

definition registerUser ::
  "(string \<Rightarrow> string) \<Rightarrow> (nat \<Rightarrow> timestamp) \<Rightarrow> (nat \<Rightarrow> string) \<Rightarrow> timestamp
     \<Rightarrow> create_user_input \<Rightarrow> db \<Rightarrow> ((error + user) \<times> db) option" where
  "registerUser hashPassword clock random now input d =
     (let existingUser = take 1 (filter (\<lambda>u. user_email u = cui_email input) (usersTable d))
      in if length existingUser > 0 then Some (Inl (Error ''Email already exists''), d)
      else
      (let passwordHash = hashPassword (cui_password input)
       in case (if cui_role input = Affiliate
                then map_option Some (registerUser_loop clock random d 0)
                else Some None) of
            None \<Rightarrow> None
          | Some affiliateCode \<Rightarrow>
       (let u = \<lparr>user_id = next_user_id d,
                 user_email = cui_email input,
                 user_password_hash = passwordHash,
                 user_full_name = cui_full_name input,
                 user_role = cui_role input,
                 user_affiliate_code = affiliateCode,
                 user_created_at = now,
                 user_updated_at = now\<rparr>
        in Some (Inr u, d\<lparr>usersTable := usersTable d @ [u],
                          next_user_id := next_user_id d + 1\<rparr>))))"

record login_input =
  li_email :: string
  li_password :: string

definition loginUser :: "(string \<Rightarrow> string) \<Rightarrow> login_input \<Rightarrow> db \<Rightarrow> error + user" where
  "loginUser hashPassword input d =
     (let users = take 1 (filter (\<lambda>u. user_email u = li_email input) (usersTable d))
      in case users of
           [] \<Rightarrow> Inl (Error ''Invalid email or password'')
         | u # _ \<Rightarrow>
      (let hashedInput = hashPassword (li_password input)
       in if hashedInput \<noteq> user_password_hash u
          then Inl (Error ''Invalid email or password'')
          else Inr u))"

declare toStringRadix.simps [simp del]

section \<open>Vocabulary of the statements\<close>

text \<open>
  Predicates and projections used to state the properties. None of them is part of a
  handler; each is a query over the store, written so that it evaluates on a concrete
  store.
\<close>

definition is_affiliate :: "db \<Rightarrow> int \<Rightarrow> bool" where
  "is_affiliate d i \<longleftrightarrow> (\<exists>u \<in> set (usersTable d). user_id u = i \<and> user_role u = Affiliate)"





definition has_payout :: "db \<Rightarrow> int \<Rightarrow> bool" where
  "has_payout d i \<longleftrightarrow> (\<exists>p \<in> set (payoutRequestsTable d). payout_id p = i)"

definition email_registered :: "db \<Rightarrow> string \<Rightarrow> bool" where
  "email_registered d e \<longleftrightarrow> (\<exists>u \<in> set (usersTable d). user_email u = e)"






text \<open>
  Referential consistency of the store: every registration and every link click
  belongs to a user with role affiliate. The handlers that write keep it (shown below).
\<close>

definition refs_affiliates :: "db \<Rightarrow> bool" where
  "refs_affiliates d \<longleftrightarrow>
     (\<forall>r \<in> set (registrationsTable d). is_affiliate d (reg_affiliate_id r))
   \<and> (\<forall>c \<in> set (linkClicksTable d). is_affiliate d (click_affiliate_id c))"

text \<open>
  A sequence of \<^verbatim>\<open>updatePayoutStatus\<close> calls, each with its own time, run in order;
  the \<^verbatim>\<open>processed_at\<close> of the payout with a given id; and the time of the last call
  of a sequence that sets this payout to \<^verbatim>\<open>paid\<close>.
\<close>

fun updatePayoutStatus_calls ::
  "(timestamp \<times> update_payout_status_input) list \<Rightarrow> db \<Rightarrow> db" where
  "updatePayoutStatus_calls [] d = d"
| "updatePayoutStatus_calls ((now, input) # calls) d =
     updatePayoutStatus_calls calls (snd (updatePayoutStatus now input d))"

definition processed_at_of :: "db \<Rightarrow> int \<Rightarrow> timestamp option" where
  "processed_at_of d i =
     (case filter (\<lambda>p. payout_id p = i) (payoutRequestsTable d) of
        [] \<Rightarrow> None
      | p # _ \<Rightarrow> payout_processed_at p)"

fun last_paid :: "int \<Rightarrow> (timestamp \<times> update_payout_status_input) list \<Rightarrow> timestamp option" where
  "last_paid i [] = None"
| "last_paid i ((now, input) # calls) =
     (case last_paid i calls of
        Some t \<Rightarrow> Some t
      | None \<Rightarrow> (if upi_id input = i \<and> upi_status input = Paid then Some now else None))"

definition set_status :: "payout_status \<Rightarrow> int \<Rightarrow> update_payout_status_input" where
  "set_status s i = \<lparr>upi_id = i, upi_status = s\<rparr>"




section \<open>Example stores\<close>

text \<open>
  Concrete stores and inputs, after the fixtures of the test suites, on which the
  theorems below are instantiated.
\<close>

definition empty_db :: db where
  "empty_db = \<lparr>usersTable = [], programsTable = [], registrationsTable = [],
               linkClicksTable = [], payoutRequestsTable = [],
               next_user_id = 1, next_registration_id = 1, next_click_id = 1,
               next_payout_id = 1\<rparr>"

definition ex_affiliate :: user where
  "ex_affiliate = \<lparr>user_id = 1, user_email = ''affiliate@test.com'',
     user_password_hash = ''hashed_password'', user_full_name = ''Test Affiliate'',
     user_role = Affiliate, user_affiliate_code = Some ''AFF12345'',
     user_created_at = 0, user_updated_at = 0\<rparr>"

definition ex_admin :: user where
  "ex_admin = \<lparr>user_id = 2, user_email = ''admin@test.com'',
     user_password_hash = ''hashed_password'', user_full_name = ''Test Admin'',
     user_role = Admin, user_affiliate_code = None,
     user_created_at = 0, user_updated_at = 0\<rparr>"

definition ex_program :: program where
  "ex_program = \<lparr>program_id = 1, program_name = ''Test Program'', program_type = Online,
     program_fee = 1000000, program_commission_rate = 10,
     program_commission_type = Percentage, program_description = Some ''A program for testing'',
     program_is_active = True, program_created_at = 0, program_updated_at = 0\<rparr>"

definition ex_inactive_program :: program where
  "ex_inactive_program = ex_program\<lparr>program_id := 2, program_is_active := False\<rparr>"

definition ex_negative_program :: program where
  "ex_negative_program = ex_program\<lparr>program_id := 3, program_type := Rombongan,
     program_commission_rate := - 50000, program_commission_type := Flat\<rparr>"

definition ex_db :: db where
  "ex_db = empty_db\<lparr>usersTable := [ex_affiliate, ex_admin],
     programsTable := [ex_program, ex_inactive_program, ex_negative_program],
     next_user_id := 3\<rparr>"


definition ex_registration :: registration where
  "ex_registration = \<lparr>reg_id = 1, reg_affiliate_id = 1, reg_program_id = 1,
     reg_student_name = ''Test Student'', reg_student_email = ''student@test.com'',
     reg_student_phone = ''08123456789'', reg_status = PaymentVerified,
     reg_commission_amount = 100000, reg_registration_date = 0,
     reg_payment_verified_at = Some 0, reg_created_at = 0, reg_updated_at = 0\<rparr>"


definition ex_payout :: payout_request where
  "ex_payout = \<lparr>payout_id = 1, payout_affiliate_id = 1, payout_amount = 60000,
     payout_bank_name = ''Test Bank'', payout_account_number = ''1234567890'',
     payout_account_holder_name = ''Test Affiliate'', payout_status = PayoutPending,
     payout_requested_at = 0, payout_processed_at = None,
     payout_created_at = 0, payout_updated_at = 0\<rparr>"

definition ex_payout_db :: db where
  "ex_payout_db = empty_db\<lparr>usersTable := [ex_affiliate, ex_admin],
     registrationsTable := [ex_registration], payoutRequestsTable := [ex_payout],
     next_user_id := 3, next_registration_id := 2, next_payout_id := 2\<rparr>"


definition ex_hash :: "string \<Rightarrow> string" where
  "ex_hash password = ''sha256:'' @ password"

definition ex_login_db :: db where
  "ex_login_db = ex_db\<lparr>usersTable :=
     [ex_affiliate\<lparr>user_password_hash := ex_hash ''password123''\<rparr>, ex_admin]\<rparr>"






section \<open>Queries and updates on lists of rows\<close>


lemma filter_map_update:
  assumes "\<And>x. P (f x) = P x"
  shows "filter P (map (\<lambda>x. if P x then f x else x) xs) = map f (filter P xs)"
  by (induction xs) (simp_all add: assms)

lemma filter_map_other:
  assumes "\<And>x. P (f x) = P x" "\<And>x. Q (f x) = Q x" "\<And>x. P x \<Longrightarrow> \<not> Q x"
  shows "filter Q (map (\<lambda>x. if P x then f x else x) xs) = filter Q xs"
  by (induction xs) (simp_all add: assms)








lemma has_payout_filter:
  "has_payout d i \<longleftrightarrow> filter (\<lambda>p. payout_id p = i) (payoutRequestsTable d) \<noteq> []"
  by (auto simp add: has_payout_def filter_empty_conv)



section \<open>Properties of the commission rule\<close>



section \<open>Payout authorisation\<close>



section \<open>Commission stored at registration\<close>

text \<open>
  What \<^verbatim>\<open>createRegistration\<close> stores is the unclamped value of the rule, so it agrees
  with \<^verbatim>\<open>calculateCommission\<close> exactly when that value is not negative.
\<close>

lemma createRegistration_commission:
  assumes "fst (createRegistration now inp d) = Inr r"
  shows "\<exists>p \<in> set (programsTable d).
           program_id p = cri_program_id inp \<and> program_is_active p
         \<and> reg_commission_amount r =
             (if program_commission_type p = Percentage
              then program_fee p * program_commission_rate p / 100
              else program_commission_rate p)
         \<and> calculateCommission p = max 0 (reg_commission_amount r)"
proof -
  from assms obtain p ps where
    p: "filter (\<lambda>p. program_id p = cri_program_id inp \<and> program_is_active p = True)
          (programsTable d) = p # ps"
    and r: "reg_commission_amount r =
             (if program_commission_type p = Percentage
              then program_fee p * program_commission_rate p / 100
              else program_commission_rate p)"
    by (auto simp add: createRegistration_def Let_def split: list.splits)
  from p have "p \<in> set (filter (\<lambda>p. program_id p = cri_program_id inp \<and> program_is_active p = True)
          (programsTable d))" by simp
  then have "p \<in> set (programsTable d)" "program_id p = cri_program_id inp" "program_is_active p"
    by simp_all
  moreover have "calculateCommission p = max 0 (reg_commission_amount r)"
    unfolding r by (cases "program_commission_type p") (simp_all add: calculateCommission_def)
  ultimately show ?thesis using r by blast
qed


section \<open>Payment verification\<close>

lemma snd_verifyPayment:
  "snd (verifyPayment now rid d) =
     d\<lparr>registrationsTable :=
        map (\<lambda>r. if reg_id r = rid
                  then r\<lparr>reg_status := PaymentVerified,
                         reg_payment_verified_at := Some now,
                         reg_updated_at := now\<rparr>
                  else r) (registrationsTable d)\<rparr>"
  by (simp add: verifyPayment_def Let_def split: list.split)








section \<open>Creating a registration\<close>



lemma createRegistration_success:
  assumes "fst (createRegistration now inp d) = Inr r"
  shows "reg_status r = Pending \<and> reg_payment_verified_at r = None
       \<and> snd (createRegistration now inp d)
           = d\<lparr>registrationsTable := registrationsTable d @ [r],
               next_registration_id := next_registration_id d + 1\<rparr>"
  using assms
  by (auto simp add: createRegistration_def Let_def split: list.splits)




section \<open>Payout status\<close>

lemma updatePayoutStatus_missing:
  "\<not> has_payout d (upi_id inp) \<Longrightarrow>
     updatePayoutStatus now inp d = (Inl (Error ''Payout request not found''), d)"
  by (simp add: updatePayoutStatus_def has_payout_filter)

lemma snd_updatePayoutStatus:
  "has_payout d (upi_id inp) \<Longrightarrow>
   snd (updatePayoutStatus now inp d) =
     d\<lparr>payoutRequestsTable :=
        map (\<lambda>p. if payout_id p = upi_id inp
                  then (if upi_status inp = Paid
                        then p\<lparr>payout_status := upi_status inp, payout_updated_at := now,
                               payout_processed_at := Some now\<rparr>
                        else p\<lparr>payout_status := upi_status inp, payout_updated_at := now\<rparr>)
                  else p) (payoutRequestsTable d)\<rparr>"
  by (simp add: updatePayoutStatus_def Let_def has_payout_filter split: list.split)

lemma processed_at_step:
  "processed_at_of (snd (updatePayoutStatus now inp d)) i =
     (if upi_id inp = i \<and> upi_status inp = Paid \<and> has_payout d i then Some now
      else processed_at_of d i)"
proof (cases "has_payout d (upi_id inp)")
  case False
  then show ?thesis by (auto simp add: updatePayoutStatus_missing)
next
  case True
  let ?f = "\<lambda>p. if upi_status inp = Paid
                        then p\<lparr>payout_status := upi_status inp, payout_updated_at := now,
                               payout_processed_at := Some now\<rparr>
                        else p\<lparr>payout_status := upi_status inp, payout_updated_at := now\<rparr>"
  have tbl: "payoutRequestsTable (snd (updatePayoutStatus now inp d))
      = map (\<lambda>p. if payout_id p = upi_id inp then ?f p else p) (payoutRequestsTable d)"
    by (simp add: snd_updatePayoutStatus [OF True])
  show ?thesis
  proof (cases "upi_id inp = i")
    case same: True
    have "filter (\<lambda>p. payout_id p = upi_id inp)
            (map (\<lambda>p. if payout_id p = upi_id inp then ?f p else p) (payoutRequestsTable d))
          = map ?f (filter (\<lambda>p. payout_id p = upi_id inp) (payoutRequestsTable d))"
      by (rule filter_map_update) simp
    moreover from True obtain p ps where
      "filter (\<lambda>p. payout_id p = upi_id inp) (payoutRequestsTable d) = p # ps"
      by (auto simp add: has_payout_filter neq_Nil_conv)
    ultimately show ?thesis
      using True same by (simp add: processed_at_of_def tbl)
  next
    case other: False
    have "filter (\<lambda>p. payout_id p = i)
            (map (\<lambda>p. if payout_id p = upi_id inp then ?f p else p) (payoutRequestsTable d))
          = filter (\<lambda>p. payout_id p = i) (payoutRequestsTable d)"
      by (rule filter_map_other) (use other in auto)
    then show ?thesis
      using other by (simp add: processed_at_of_def tbl)
  qed
qed

lemma has_payout_step:
  "has_payout (snd (updatePayoutStatus now inp d)) i = has_payout d i"
proof (cases "has_payout d (upi_id inp)")
  case False
  then show ?thesis by (simp add: updatePayoutStatus_missing)
next
  case True
  have "map payout_id (map (\<lambda>p. if payout_id p = upi_id inp
                  then (if upi_status inp = Paid
                        then p\<lparr>payout_status := upi_status inp, payout_updated_at := now,
                               payout_processed_at := Some now\<rparr>
                        else p\<lparr>payout_status := upi_status inp, payout_updated_at := now\<rparr>)
                  else p) xs) = map payout_id xs" for xs
    by (induction xs) simp_all
  then have "map payout_id (payoutRequestsTable (snd (updatePayoutStatus now inp d)))
             = map payout_id (payoutRequestsTable d)"
    by (simp add: snd_updatePayoutStatus [OF True])
  then have "set (map payout_id (payoutRequestsTable (snd (updatePayoutStatus now inp d))))
             = set (map payout_id (payoutRequestsTable d))"
    by (rule arg_cong)
  moreover have "has_payout e j \<longleftrightarrow> j \<in> set (map payout_id (payoutRequestsTable e))" for e j
    by (auto simp add: has_payout_def)
  ultimately show ?thesis by (simp del: set_map)
qed

lemma processed_at_calls:
  "has_payout d i \<Longrightarrow>
     processed_at_of (updatePayoutStatus_calls calls d) i =
       (case last_paid i calls of Some t \<Rightarrow> Some t | None \<Rightarrow> processed_at_of d i)"
proof (induction calls arbitrary: d)
  case Nil
  then show ?case by simp
next
  case (Cons c calls)
  obtain now inp where c: "c = (now, inp)" by (cases c)
  from Cons.prems have "has_payout (snd (updatePayoutStatus now inp d)) i"
    by (simp add: has_payout_step)
  from Cons.IH [OF this] Cons.prems show ?case
    by (simp add: c processed_at_step split: option.split)
qed

text \<open>
  C6, as amended. For an existing payout request, after any sequence of
  \<^verbatim>\<open>updatePayoutStatus\<close> calls its \<^verbatim>\<open>processed_at\<close> is the time of the last call
  that set it to \<^verbatim>\<open>paid\<close>, or its old value when no call did: every call with status
  \<^verbatim>\<open>paid\<close> stamps the time of that call, a call with status \<^verbatim>\<open>pending\<close> leaves the
  value as it is, and a value that is set is never cleared.
\<close>

theorem processed_at_last_paid:
  "has_payout d i \<longrightarrow>
     processed_at_of (updatePayoutStatus_calls calls d) i =
       (case last_paid i calls of Some t \<Rightarrow> Some t | None \<Rightarrow> processed_at_of d i)
     \<and> (processed_at_of d i \<noteq> None \<longrightarrow>
          processed_at_of (updatePayoutStatus_calls calls d) i \<noteq> None)
     \<and> processed_at_of (snd (updatePayoutStatus now (set_status Paid i) d)) i = Some now
     \<and> processed_at_of (snd (updatePayoutStatus now (set_status PayoutPending i) d)) i
         = processed_at_of d i"
proof
  assume h: "has_payout d i"
  have 1: "processed_at_of (updatePayoutStatus_calls calls d) i =
       (case last_paid i calls of Some t \<Rightarrow> Some t | None \<Rightarrow> processed_at_of d i)"
    by (rule processed_at_calls [OF h])
  have 2: "processed_at_of d i \<noteq> None \<longrightarrow>
          processed_at_of (updatePayoutStatus_calls calls d) i \<noteq> None"
    unfolding 1 by (simp split: option.split)
  have 3: "processed_at_of (snd (updatePayoutStatus now (set_status Paid i) d)) i = Some now"
    using h by (simp add: processed_at_step set_status_def)
  have 4: "processed_at_of (snd (updatePayoutStatus now (set_status PayoutPending i) d)) i
         = processed_at_of d i"
    by (simp add: processed_at_step set_status_def)
  from 1 2 3 4 show "processed_at_of (updatePayoutStatus_calls calls d) i =
       (case last_paid i calls of Some t \<Rightarrow> Some t | None \<Rightarrow> processed_at_of d i)
     \<and> (processed_at_of d i \<noteq> None \<longrightarrow>
          processed_at_of (updatePayoutStatus_calls calls d) i \<noteq> None)
     \<and> processed_at_of (snd (updatePayoutStatus now (set_status Paid i) d)) i = Some now
     \<and> processed_at_of (snd (updatePayoutStatus now (set_status PayoutPending i) d)) i
         = processed_at_of d i"
    by (intro conjI)
qed

theorem processed_at_last_paid_witness:
  "has_payout ex_payout_db 1
   \<and> processed_at_of
       (updatePayoutStatus_calls
          [(10, set_status Paid 1), (20, set_status PayoutPending 1)] ex_payout_db) 1 = Some 10"
proof -
  have h: "has_payout ex_payout_db 1"
    by (simp add: has_payout_def ex_payout_db_def ex_payout_def)
  have l: "last_paid 1 [(10, set_status Paid 1), (20, set_status PayoutPending 1)] = Some 10"
    by (simp add: set_status_def)
  from processed_at_last_paid
         [of ex_payout_db 1 "[(10, set_status Paid 1), (20, set_status PayoutPending 1)]" 0] h l
  show ?thesis by simp
qed

text \<open>
  C6 as stated fails: the request set to \<^verbatim>\<open>paid\<close> at time 10, back to
  \<^verbatim>\<open>pending\<close> at 20 and to \<^verbatim>\<open>paid\<close> again at 30 has \<^verbatim>\<open>processed_at\<close> 30, not
  the 10 of its first transition.
\<close>

theorem processed_at_restamped:
  "processed_at_of (updatePayoutStatus_calls [(10, set_status Paid 1)] ex_payout_db) 1 = Some 10
   \<and> processed_at_of
       (updatePayoutStatus_calls
          [(10, set_status Paid 1), (20, set_status PayoutPending 1), (30, set_status Paid 1)]
          ex_payout_db) 1 = Some 30"
  by (simp add: updatePayoutStatus_def processed_at_of_def Let_def set_status_def
        ex_payout_db_def empty_db_def ex_payout_def)

section \<open>Affiliate codes\<close>

























lemma registerUser_admin:
  assumes "cui_role inp = Admin" "\<not> email_registered d (cui_email inp)"
  shows "\<exists>u d'. registerUser h clock random now inp d = Some (Inr u, d')
           \<and> user_affiliate_code u = None"
proof -
  from assms(2) have "filter (\<lambda>u. user_email u = cui_email inp) (usersTable d) = []"
    by (auto simp add: email_registered_def filter_empty_conv)
  with assms(1) show ?thesis
    by (simp add: registerUser_def Let_def)
qed






section \<open>Statistics\<close>





section \<open>Existence checks of the per-affiliate reads\<close>


lemma is_affiliate_mono:
  assumes "set (usersTable d) \<subseteq> set (usersTable d')" "is_affiliate d i"
  shows "is_affiliate d' i"
  using assms by (auto simp add: is_affiliate_def)

lemma refs_affiliates_empty: "refs_affiliates empty_db"
  by (simp add: refs_affiliates_def empty_db_def)

lemma createRegistration_refs:
  assumes "refs_affiliates d"
  shows "refs_affiliates (snd (createRegistration now inp d))"
proof (cases "fst (createRegistration now inp d)")
  case (Inl e)
  then have "snd (createRegistration now inp d) = d"
    by (auto simp add: createRegistration_def Let_def split: list.splits)
  with assms show ?thesis by simp
next
  case (Inr r)
  then obtain u us where
    u: "filter (\<lambda>u. user_affiliate_code u = Some (cri_affiliate_code inp) \<and> user_role u = Affiliate)
          (usersTable d) = u # us" and r: "reg_affiliate_id r = user_id u"
    by (auto simp add: createRegistration_def Let_def split: list.splits)
  from u have "u \<in> set (filter (\<lambda>u. user_affiliate_code u = Some (cri_affiliate_code inp)
          \<and> user_role u = Affiliate) (usersTable d))" by simp
  then have "is_affiliate d (reg_affiliate_id r)"
    unfolding r by (auto simp add: is_affiliate_def)
  moreover have "snd (createRegistration now inp d)
           = d\<lparr>registrationsTable := registrationsTable d @ [r],
               next_registration_id := next_registration_id d + 1\<rparr>"
    using createRegistration_success [OF Inr] by simp
  ultimately show ?thesis
    using assms by (auto simp add: refs_affiliates_def is_affiliate_def)
qed

lemma trackLinkClick_refs:
  assumes "refs_affiliates d"
  shows "refs_affiliates (snd (trackLinkClick now inp d))"
proof (cases "filter (\<lambda>u. user_affiliate_code u = Some (tli_affiliate_code inp)
          \<and> user_role u = Affiliate) (usersTable d)")
  case Nil
  with assms show ?thesis by (simp add: trackLinkClick_def)
next
  case (Cons u us)
  then have "u \<in> set (filter (\<lambda>u. user_affiliate_code u = Some (tli_affiliate_code inp)
          \<and> user_role u = Affiliate) (usersTable d))" by simp
  then have "is_affiliate d (user_id u)"
    by (auto simp add: is_affiliate_def)
  with assms Cons show ?thesis
    by (auto simp add: trackLinkClick_def Let_def refs_affiliates_def is_affiliate_def)
qed

lemma verifyPayment_refs:
  assumes "refs_affiliates d"
  shows "refs_affiliates (snd (verifyPayment now rid d))"
proof -
  have users: "usersTable (snd (verifyPayment now rid d)) = usersTable d"
    and clicks: "linkClicksTable (snd (verifyPayment now rid d)) = linkClicksTable d"
    by (simp_all add: snd_verifyPayment)
  have same: "is_affiliate (snd (verifyPayment now rid d)) i = is_affiliate d i" for i
    by (simp add: is_affiliate_def users)
  have "is_affiliate d (reg_affiliate_id r)"
    if "r \<in> set (registrationsTable (snd (verifyPayment now rid d)))" for r
  proof -
    from that obtain x where "x \<in> set (registrationsTable d)"
      and "reg_affiliate_id r = reg_affiliate_id x"
      by (auto simp add: snd_verifyPayment split: if_splits)
    with assms show ?thesis by (simp add: refs_affiliates_def)
  qed
  moreover have "is_affiliate d (click_affiliate_id c)" if "c \<in> set (linkClicksTable d)" for c
    using assms that by (simp add: refs_affiliates_def)
  ultimately show ?thesis
    by (simp add: refs_affiliates_def same clicks)
qed

lemma createPayoutRequest_refs:
  assumes "refs_affiliates d"
  shows "refs_affiliates (snd (createPayoutRequest now i inp d))"
  using assms
  by (simp add: createPayoutRequest_def Let_def refs_affiliates_def is_affiliate_def)

lemma updatePayoutStatus_refs:
  assumes "refs_affiliates d"
  shows "refs_affiliates (snd (updatePayoutStatus now inp d))"
  using assms
  by (simp add: updatePayoutStatus_def Let_def refs_affiliates_def is_affiliate_def
        split: list.split)

lemma registerUser_refs:
  assumes "refs_affiliates d" "registerUser h clock random now inp d = Some (res, d')"
  shows "refs_affiliates d'"
proof -
  from assms(2) have "d' = d \<or> (\<exists>u. d' = d\<lparr>usersTable := usersTable d @ [u],
                          next_user_id := next_user_id d + 1\<rparr>)"
    by (auto simp add: registerUser_def Let_def split: if_splits option.splits)
  with assms(1) show ?thesis
    by (auto simp add: refs_affiliates_def is_affiliate_def)
qed



section \<open>Login failures\<close>

lemma loginUser_unknown_email:
  assumes "\<not> email_registered d (li_email inp)"
  shows "loginUser h inp d = Inl (Error ''Invalid email or password'')"
proof -
  from assms have "filter (\<lambda>u. user_email u = li_email inp) (usersTable d) = []"
    by (auto simp add: email_registered_def filter_empty_conv)
  then show ?thesis by (simp add: loginUser_def)
qed

lemma loginUser_wrong_password:
  assumes "\<forall>u \<in> set (usersTable d).
             user_email u = li_email inp \<longrightarrow> h (li_password inp) \<noteq> user_password_hash u"
  shows "loginUser h inp d = Inl (Error ''Invalid email or password'')"
proof (cases "filter (\<lambda>u. user_email u = li_email inp) (usersTable d)")
  case Nil
  then show ?thesis by (simp add: loginUser_def)
next
  case (Cons u us)
  then have "u \<in> set (filter (\<lambda>u. user_email u = li_email inp) (usersTable d))" by simp
  with assms have "h (li_password inp) \<noteq> user_password_hash u" by simp
  with Cons show ?thesis by (simp add: loginUser_def)
qed

lemma loginUser_error:
  assumes "loginUser h inp d = Inl e"
  shows "e = Error ''Invalid email or password''"
proof (cases "take 1 (filter (\<lambda>u. user_email u = li_email inp) (usersTable d))")
  case Nil
  with assms show ?thesis by (simp add: loginUser_def)
next
  case (Cons u us)
  with assms show ?thesis
    by (cases "h (li_password inp) = user_password_hash u") (simp_all add: loginUser_def)
qed

text \<open>
  C10. \<^verbatim>\<open>loginUser\<close> fails with the message \<^verbatim>\<open>Invalid email or password\<close> both
  when no user has the email and when a user has it and the hash of the password
  differs from the stored one; any two failing calls return the same result.
\<close>

theorem loginUser_failures_indistinguishable:
  "(\<not> email_registered d (li_email inp) \<longrightarrow>
      loginUser h inp d = Inl (Error ''Invalid email or password''))
   \<and> (email_registered d (li_email inp)
        \<and> (\<forall>u \<in> set (usersTable d). user_email u = li_email inp \<longrightarrow>
              h (li_password inp) \<noteq> user_password_hash u) \<longrightarrow>
      loginUser h inp d = Inl (Error ''Invalid email or password''))
   \<and> (isl (loginUser h inp d) \<and> isl (loginUser h inp' d') \<longrightarrow>
        loginUser h inp d = loginUser h inp' d')"
proof -
  have fail: "loginUser h x e = Inl (Error ''Invalid email or password'')"
    if "isl (loginUser h x e)" for x e
  proof -
    from that obtain err where "loginUser h x e = Inl err"
      by (cases "loginUser h x e") simp_all
    with loginUser_error [OF this] show ?thesis by simp
  qed
  have 1: "\<not> email_registered d (li_email inp) \<longrightarrow>
      loginUser h inp d = Inl (Error ''Invalid email or password'')"
    by (simp add: loginUser_unknown_email)
  have 2: "email_registered d (li_email inp)
        \<and> (\<forall>u \<in> set (usersTable d). user_email u = li_email inp \<longrightarrow>
              h (li_password inp) \<noteq> user_password_hash u) \<longrightarrow>
      loginUser h inp d = Inl (Error ''Invalid email or password'')"
    using loginUser_wrong_password [of d inp h] by blast
  have 3: "isl (loginUser h inp d) \<and> isl (loginUser h inp' d') \<longrightarrow>
        loginUser h inp d = loginUser h inp' d'"
  proof (intro impI, elim conjE)
    assume a: "isl (loginUser h inp d)" and b: "isl (loginUser h inp' d')"
    from fail [OF a] fail [OF b] show "loginUser h inp d = loginUser h inp' d'" by simp
  qed
  from 1 2 3 show ?thesis by (intro conjI)
qed

theorem loginUser_failures_indistinguishable_witness:
  "loginUser ex_hash \<lparr>li_email = ''nonexistent@test.com'', li_password = ''password123''\<rparr> ex_login_db
     = Inl (Error ''Invalid email or password'')
   \<and> loginUser ex_hash \<lparr>li_email = ''affiliate@test.com'', li_password = ''wrongpassword''\<rparr> ex_login_db
     = Inl (Error ''Invalid email or password'')
   \<and> email_registered ex_login_db ''affiliate@test.com''
   \<and> \<not> email_registered ex_login_db ''nonexistent@test.com''"
proof -
  have a: "\<not> email_registered ex_login_db ''nonexistent@test.com''"
      "email_registered ex_login_db ''affiliate@test.com''"
    by (simp_all add: email_registered_def ex_login_db_def ex_affiliate_def ex_admin_def)
  have b: "\<forall>u \<in> set (usersTable ex_login_db). user_email u = ''affiliate@test.com'' \<longrightarrow>
             ex_hash ''wrongpassword'' \<noteq> user_password_hash u"
    by (simp add: ex_login_db_def ex_affiliate_def ex_admin_def ex_hash_def)
  from loginUser_failures_indistinguishable
         [of ex_login_db "\<lparr>li_email = ''nonexistent@test.com'', li_password = ''password123''\<rparr>"
             ex_hash "\<lparr>li_email = ''affiliate@test.com'', li_password = ''wrongpassword''\<rparr>"
             ex_login_db] a(1)
  have 1: "loginUser ex_hash \<lparr>li_email = ''nonexistent@test.com'', li_password = ''password123''\<rparr>
             ex_login_db = Inl (Error ''Invalid email or password'')"
    by simp
  from loginUser_failures_indistinguishable
         [of ex_login_db "\<lparr>li_email = ''affiliate@test.com'', li_password = ''wrongpassword''\<rparr>"
             ex_hash "\<lparr>li_email = ''nonexistent@test.com'', li_password = ''password123''\<rparr>"
             ex_login_db] a(2) b
  have 2: "loginUser ex_hash \<lparr>li_email = ''affiliate@test.com'', li_password = ''wrongpassword''\<rparr>
             ex_login_db = Inl (Error ''Invalid email or password'')"
    by simp
  from 1 2 a show ?thesis by (intro conjI)
qed

end
